theory Spec2Isabelle
  imports Main
begin

section \<open>Data model of scanService.ts\<close>

text \<open>
  JavaScript strings are modelled as \<open>string\<close> (their UTF-8 bytes), a value that may be
  \<open>null\<close> or \<open>undefined\<close> as an \<open>option\<close>. A string is truthy when it is not empty.
\<close>

type_synonym buffer = "char list"

text \<open>
  A thrown value, reduced to what the code inspects: \<open>error instanceof Error\<close>,
  \<open>error?.message\<close>, \<open>error?.name\<close> and \<open>error?.$metadata?.httpStatusCode\<close>.
\<close>

record thrown =
  instanceOfError :: bool
  message :: "string option"
  name :: "string option"
  httpStatusCode :: "int option"

text \<open>The module constants read from the environment when the module is loaded.\<close>

record config =
  bucket :: string
  folder :: string
  preferredRegion :: string

text \<open>
  Every call that leaves the process is recorded, in order. A put records the region
  the sending client is bound to, the bucket, the key and the body.
\<close>

datatype event =
    GetBucketLocation string
  | PutObject string string string buffer
  | GenerateContent string
  | RandomId
  | NewDate

text \<open>
  A parsed JSON value. \<open>JObj\<close> lists the properties of an object, each key once;
  numbers are kept as integers, which is all the code below distinguishes (a number is
  never a string).
\<close>

datatype json =
    JNull
  | JBool bool
  | JNum int
  | JStr string
  | JArr "json list"
  | JObj "(string \<times> json) list"

text \<open>
  The collaborators of the module. Each answer may depend on everything that happened
  before (the trace) and on the request. \<open>getBucketLocation\<close> answers with the
  \<open>LocationConstraint\<close> field, \<open>generateContent\<close> with \<open>response.text\<close>.
\<close>

record world =
  getBucketLocation :: "event list \<Rightarrow> string \<Rightarrow> thrown + string option"
  putObject :: "event list \<Rightarrow> string \<Rightarrow> string \<Rightarrow> string \<Rightarrow> buffer \<Rightarrow> thrown + unit"
  generateContent :: "event list \<Rightarrow> string \<Rightarrow> thrown + string option"
  hasRandomUUID :: bool
  randomUUID :: "event list \<Rightarrow> string"
  mathRandomBase36 :: "event list \<Rightarrow> string"
  toISOString :: "event list \<Rightarrow> string"
  bufferFromBase64 :: "string \<Rightarrow> buffer"
  jsonParse :: "string \<Rightarrow> thrown + json"

text \<open>
  The two module variables \<open>resolvedRegion\<close> and \<open>s3Client\<close> (a client is
  identified by the region it is bound to: bucket and credentials never change), and
  the trace.
\<close>

record state =
  resolvedRegion :: "string option"
  s3Client :: "string option"
  trace :: "event list"

definition initialState :: state where
  "initialState = \<lparr>resolvedRegion = None, s3Client = None, trace = []\<rparr>"

section \<open>Region Resolver\<close>

definition truthy :: "string option \<Rightarrow> bool" where
  "truthy v = (case v of None \<Rightarrow> False | Some s \<Rightarrow> s \<noteq> [])"

definition normalizeRegion :: "string option \<Rightarrow> string" where
  "normalizeRegion v =
     (case v of
        None \<Rightarrow> ''us-east-1''
      | Some s \<Rightarrow>
          if s = [] \<or> s = ''us-east-1'' then ''us-east-1''
          else if s = ''EU'' then ''eu-west-1''
          else s)"

text \<open>\<open>a || b\<close> on strings.\<close>

definition orElse :: "string \<Rightarrow> string \<Rightarrow> string" where
  "orElse a b = (if a \<noteq> [] then a else b)"

definition ensureRegion :: "config \<Rightarrow> world \<Rightarrow> state \<Rightarrow> string \<times> state" where
  "ensureRegion cfg w s =
     (if truthy (resolvedRegion s) then (the (resolvedRegion s), s)
      else if preferredRegion cfg \<noteq> [] then
        (let r = orElse (normalizeRegion (Some (preferredRegion cfg))) ''us-east-1''
         in (r, s\<lparr>resolvedRegion := Some r\<rparr>))
      else
        (let s1 = s\<lparr>trace := trace s @ [GetBucketLocation (bucket cfg)]\<rparr>
         in case getBucketLocation w (trace s) (bucket cfg) of
              Inr loc \<Rightarrow>
                (let r = orElse (normalizeRegion loc) ''us-east-1''
                 in (r, s1\<lparr>resolvedRegion := Some r\<rparr>))
            | Inl err \<Rightarrow> (''us-east-1'', s1\<lparr>resolvedRegion := Some ''us-east-1''\<rparr>)))"

definition getS3Client :: "config \<Rightarrow> world \<Rightarrow> state \<Rightarrow> string \<times> state" where
  "getS3Client cfg w s =
     (case s3Client s of
        Some c \<Rightarrow> (c, s)
      | None \<Rightarrow>
          (let (region, s1) = ensureRegion cfg w s
           in (region, s1\<lparr>s3Client := Some region\<rparr>)))"

section \<open>Object Writer\<close>

fun startsWith :: "string \<Rightarrow> string \<Rightarrow> bool" where
  "startsWith s [] = True"
| "startsWith [] (p # ps) = False"
| "startsWith (c # cs) (p # ps) = (c = p \<and> startsWith cs ps)"

text \<open>\<open>String.prototype.includes\<close>: the needle occurs somewhere in the string.\<close>

fun includesStr :: "string \<Rightarrow> string \<Rightarrow> bool" where
  "includesStr [] sub = startsWith [] sub"
| "includesStr (c # cs) sub = (startsWith (c # cs) sub \<or> includesStr cs sub)"

text \<open>The condition of the \<open>if\<close> in the \<open>catch\<close> of \<open>persistScanResult\<close>.\<close>

definition isRegionMismatch :: "thrown \<Rightarrow> bool" where
  "isRegionMismatch error =
     ((case message error of Some m \<Rightarrow> includesStr m ''endpoint'' | None \<Rightarrow> False)
      \<or> name error = Some ''PermanentRedirect''
      \<or> httpStatusCode error = Some 301)"

definition sanitizeFolder :: "string \<Rightarrow> string" where
  "sanitizeFolder input =
     rev (dropWhile (\<lambda>c. c = CHR ''/'') (rev (dropWhile (\<lambda>c. c = CHR ''/'') input)))"

text \<open>
  The identifier comes from \<open>crypto.randomUUID()\<close> when it exists and from
  \<open>Math.random().toString(36).slice(2)\<close> otherwise, the timestamp from
  \<open>new Date().toISOString()\<close> with every \<open>:\<close> and \<open>.\<close> replaced by \<open>-\<close>.
\<close>

definition generateObjectKey :: "config \<Rightarrow> world \<Rightarrow> state \<Rightarrow> string \<times> state" where
  "generateObjectKey cfg w s =
     (let safeFolder = sanitizeFolder (folder cfg);
          ident = (if hasRandomUUID w then randomUUID w (trace s)
                   else drop 2 (mathRandomBase36 w (trace s)));
          s1 = s\<lparr>trace := trace s @ [RandomId]\<rparr>;
          timestamp = map (\<lambda>c. if c = CHR '':'' \<or> c = CHR ''.'' then CHR ''-'' else c)
                        (toISOString w (trace s1));
          s2 = s1\<lparr>trace := trace s1 @ [NewDate]\<rparr>;
          pre = (if safeFolder \<noteq> [] then safeFolder @ ''/'' else [])
      in (pre @ timestamp @ ''-'' @ ident @ ''.jpg'', s2))"

definition isWordChar :: "char \<Rightarrow> bool" where
  "isWordChar c =
     (c \<in> set (''abcdefghijklmnopqrstuvwxyz'' @ ''ABCDEFGHIJKLMNOPQRSTUVWXYZ'' @ ''0123456789_''))"

text \<open>\<open>replace(/^data:image\/\w+;base64,/, '')\<close>: \<open>\w+\<close> is followed by \<open>;\<close>, which is
  no word character, so it can only match the longest run of word characters.\<close>

definition stripDataUrl :: "string \<Rightarrow> string" where
  "stripDataUrl s =
     (if startsWith s ''data:image/'' then
        (let rest = drop 11 s;
             after = dropWhile isWordChar rest
         in if takeWhile isWordChar rest \<noteq> [] \<and> startsWith after '';base64,''
            then drop 8 after else s)
      else s)"

definition base64ToBuffer :: "world \<Rightarrow> string \<Rightarrow> buffer" where
  "base64ToBuffer w base64Image = bufferFromBase64 w (stripDataUrl base64Image)"

definition logPut :: "string \<Rightarrow> config \<Rightarrow> string \<Rightarrow> buffer \<Rightarrow> state \<Rightarrow> state" where
  "logPut client cfg objectKey body s =
     s\<lparr>trace := trace s @ [PutObject client (bucket cfg) objectKey body]\<rparr>"

definition persistScanResult ::
  "config \<Rightarrow> world \<Rightarrow> string \<Rightarrow> state \<Rightarrow> (thrown + string \<times> string) \<times> state" where
  "persistScanResult cfg w base64Image s =
     (let (objectKey, s0) = generateObjectKey cfg w s;
          body = base64ToBuffer w base64Image;
          (region, s1) = ensureRegion cfg w s0;
          (client, s2) = getS3Client cfg w s1;
          s3 = logPut client cfg objectKey body s2
      in case putObject w (trace s2) client (bucket cfg) objectKey body of
           Inr u \<Rightarrow> (Inr (objectKey, region), s3)
         | Inl error \<Rightarrow>
             if isRegionMismatch error then
               (let s4 = s3\<lparr>s3Client := None, resolvedRegion := None\<rparr>;
                    s5 = s4\<lparr>trace := trace s4 @ [GetBucketLocation (bucket cfg)]\<rparr>
                in case getBucketLocation w (trace s4) (bucket cfg) of
                     Inl retryError \<Rightarrow> (Inl retryError, s5)
                   | Inr loc \<Rightarrow>
                       (let region2 = orElse (normalizeRegion loc) ''us-east-1'';
                            s6 = s5\<lparr>s3Client := Some region2\<rparr>;
                            s7 = logPut region2 cfg objectKey body s6
                        in case putObject w (trace s6) region2 (bucket cfg) objectKey body of
                             Inl retryError \<Rightarrow> (Inl retryError, s7)
                           | Inr u \<Rightarrow> (Inr (objectKey, region2), s7)))
             else (Inl error, s3))"

section \<open>Analysis call\<close>

definition msgNoData :: string where
  "msgNoData = ''Kh'' @ [CHR 0xC3, CHR 0xB4] @ ''ng nh'' @ [CHR 0xE1, CHR 0xBA, CHR 0xAD] @ ''n ''
     @ [CHR 0xC4, CHR 0x91, CHR 0xC6, CHR 0xB0, CHR 0xE1, CHR 0xBB, CHR 0xA3] @ ''c d''
     @ [CHR 0xE1, CHR 0xBB, CHR 0xAF] @ '' li'' @ [CHR 0xE1, CHR 0xBB, CHR 0x87] @ ''u t''
     @ [CHR 0xE1, CHR 0xBB, CHR 0xAB] @ '' m'' @ [CHR 0xC3, CHR 0xA1] @ ''y qu''
     @ [CHR 0xC3, CHR 0xA9] @ ''t.''"

text \<open>\<open>replace(/^data:image\/(png|jpeg|webp);base64,/, '')\<close>.\<close>

definition stripImageDataUrl :: "string \<Rightarrow> string" where
  "stripImageDataUrl s =
     (if startsWith s ''data:image/png;base64,'' then drop 22 s
      else if startsWith s ''data:image/jpeg;base64,'' then drop 23 s
      else if startsWith s ''data:image/webp;base64,'' then drop 23 s
      else s)"

definition fence :: string where
  "fence = [CHR 0x60, CHR 0x60, CHR 0x60]"

text \<open>
  Length of the match at the start of \<open>s\<close> of the pattern \<open>```json\n?|\n?```\<close>
  (\<open>js\<close>) or \<open>```\n?|\n?```\<close> (otherwise), 0 when there is none. The alternatives are
  tried from left to right and \<open>\n?\<close> is greedy.
\<close>

definition fenceMatch :: "bool \<Rightarrow> string \<Rightarrow> nat" where
  "fenceMatch js s =
     (let opener = (if js then fence @ ''json'' else fence)
      in if startsWith s opener then
           (if startsWith (drop (length opener) s) [CHR 0x0A]
            then length opener + 1 else length opener)
         else if startsWith s (CHR 0x0A # fence) then 4
         else if startsWith s fence then 3
         else 0)"

text \<open>The global \<open>replace(..., '')\<close>; the counter is the rest of the current match.\<close>

fun removeFences :: "bool \<Rightarrow> nat \<Rightarrow> string \<Rightarrow> string" where
  "removeFences js k [] = []"
| "removeFences js (Suc k) (c # cs) = removeFences js k cs"
| "removeFences js 0 (c # cs) =
     (case fenceMatch js (c # cs) of
        0 \<Rightarrow> c # removeFences js 0 cs
      | Suc k \<Rightarrow> removeFences js k cs)"

text \<open>The prompt, the schema and the model name are constants of the request and are
  left out of the recorded call. The result is whatever \<open>JSON.parse\<close> returns: the cast
  to \<open>BiometricAnalysis\<close> checks nothing.\<close>

definition analyzeImage :: "world \<Rightarrow> string \<Rightarrow> state \<Rightarrow> (thrown + json) \<times> state" where
  "analyzeImage w base64Image s =
     (let cleanBase64 = stripImageDataUrl base64Image;
          s1 = s\<lparr>trace := trace s @ [GenerateContent cleanBase64]\<rparr>
      in case generateContent w (trace s) cleanBase64 of
           Inl err \<Rightarrow> (Inl err, s1)
         | Inr t \<Rightarrow>
             (let text0 = (case t of Some x \<Rightarrow> x | None \<Rightarrow> []);
                  text1 = (if includesStr text0 (fence @ ''json'') then removeFences True 0 text0
                           else if includesStr text0 fence then removeFences False 0 text0
                           else text0)
              in if text1 = [] then
                   (Inl \<lparr>instanceOfError = True, message = Some msgNoData,
                         name = Some ''Error'', httpStatusCode = None\<rparr>, s1)
                 else (jsonParse w text1, s1)))"

section \<open>Request Orchestrator\<close>

record scanResult =
  analysis :: json
  recordId :: string
  s3Url :: string

definition handleScan ::
  "config \<Rightarrow> world \<Rightarrow> string \<Rightarrow> state \<Rightarrow> (thrown + scanResult) \<times> state" where
  "handleScan cfg w img s =
     (case analyzeImage w img s of
        (Inl err, s1) \<Rightarrow> (Inl err, s1)
      | (Inr a, s1) \<Rightarrow>
          (case persistScanResult cfg w img s1 of
             (Inl err, s2) \<Rightarrow> (Inl err, s2)
           | (Inr (imageKey, region), s2) \<Rightarrow>
               (let host = (if region = ''us-east-1'' then ''s3.amazonaws.com''
                            else ''s3.'' @ region @ ''.amazonaws.com'');
                    url = ''https://'' @ bucket cfg @ ''.'' @ host @ ''/'' @ imageKey
                in (Inr \<lparr>analysis = a, recordId = imageKey, s3Url = url\<rparr>, s2))))"

text \<open>The states a process can be in between two calls.\<close>

inductive reachable :: "config \<Rightarrow> world \<Rightarrow> state \<Rightarrow> bool" for cfg :: config and w :: world where
  at_start: "reachable cfg w initialState"
| after_write: "reachable cfg w s \<Longrightarrow> reachable cfg w (snd (persistScanResult cfg w img s))"
| after_scan: "reachable cfg w s \<Longrightarrow> reachable cfg w (snd (handleScan cfg w img s))"

section \<open>Transport: api/scan.ts and the Express route\<close>

record request =
  "method" :: "string option"
  body :: "json option"

record response =
  status :: nat
  headers :: "(string \<times> string) list"
  jsonBody :: json

definition msgMissingImage :: string where
  "msgMissingImage = ''Thi'' @ [CHR 0xE1, CHR 0xBA, CHR 0xBF] @ ''u d''
     @ [CHR 0xE1, CHR 0xBB, CHR 0xAF] @ '' li'' @ [CHR 0xE1, CHR 0xBB, CHR 0x87] @ ''u ''
     @ [CHR 0xE1, CHR 0xBA, CHR 0xA3] @ ''nh base64.''"

definition msgCannotProcess :: string where
  "msgCannotProcess = ''Kh'' @ [CHR 0xC3, CHR 0xB4] @ ''ng th'' @ [CHR 0xE1, CHR 0xBB, CHR 0x83]
     @ '' x'' @ [CHR 0xE1, CHR 0xBB, CHR 0xAD] @ '' l'' @ [CHR 0xC3, CHR 0xBD] @ '' y''
     @ [CHR 0xC3, CHR 0xAA] @ ''u c'' @ [CHR 0xE1, CHR 0xBA, CHR 0xA7] @ ''u.''"

definition methodNotAllowed :: response where
  "methodNotAllowed =
     \<lparr>status = 405, headers = [(''Allow'', ''POST'')],
      jsonBody = JObj [(''detail'', JStr ''Method Not Allowed'')]\<rparr>"

text \<open>\<open>const { image } = req.body ?? {}\<close>: only an object has the property.\<close>

definition imageField :: "json option \<Rightarrow> json option" where
  "imageField b = (case b of Some (JObj kvs) \<Rightarrow> map_of kvs ''image'' | _ \<Rightarrow> None)"

definition jsTruthy :: "json option \<Rightarrow> bool" where
  "jsTruthy v =
     (case v of
        None \<Rightarrow> False
      | Some JNull \<Rightarrow> False
      | Some (JBool b) \<Rightarrow> b
      | Some (JNum n) \<Rightarrow> n \<noteq> 0
      | Some (JStr s) \<Rightarrow> s \<noteq> []
      | Some _ \<Rightarrow> True)"

definition isString :: "json option \<Rightarrow> bool" where
  "isString v = (case v of Some (JStr s) \<Rightarrow> True | _ \<Rightarrow> False)"

definition stringOf :: "json option \<Rightarrow> string" where
  "stringOf v = (case v of Some (JStr s) \<Rightarrow> s | _ \<Rightarrow> [])"

text \<open>\<open>error instanceof Error ? error.message : '...'\<close>; the message of an \<open>Error\<close>
  that has none of its own is the empty string of the prototype.\<close>

definition errorDetail :: "thrown \<Rightarrow> string" where
  "errorDetail error =
     (if instanceOfError error then (case message error of Some m \<Rightarrow> m | None \<Rightarrow> [])
      else msgCannotProcess)"

definition detailResponse :: "nat \<Rightarrow> string \<Rightarrow> response" where
  "detailResponse code msg = \<lparr>status = code, headers = [], jsonBody = JObj [(''detail'', JStr msg)]\<rparr>"

definition resultJson :: "scanResult \<Rightarrow> json" where
  "resultJson r =
     JObj [(''analysis'', analysis r), (''recordId'', JStr (recordId r)), (''s3Url'', JStr (s3Url r))]"

text \<open>The default export of \<open>api/scan.ts\<close>.\<close>

definition handler :: "config \<Rightarrow> world \<Rightarrow> request \<Rightarrow> state \<Rightarrow> response \<times> state" where
  "handler cfg w req s =
     (if method req \<noteq> Some ''POST'' then (methodNotAllowed, s)
      else
        (let img = imageField (body req)
         in if \<not> jsTruthy img \<or> \<not> isString img then (detailResponse 400 msgMissingImage, s)
            else case handleScan cfg w (stringOf img) s of
                   (Inr result, s1) \<Rightarrow>
                     (\<lparr>status = 200, headers = [], jsonBody = resultJson result\<rparr>, s1)
                 | (Inl error, s1) \<Rightarrow> (detailResponse 500 (errorDetail error), s1)))"

text \<open>
  The callback of \<open>app.post('/api/scan', ...)\<close>. Express calls it for POST requests
  only, so it takes the body alone; \<open>res.json\<close> answers with status 200.
\<close>

definition apiScanRoute :: "config \<Rightarrow> world \<Rightarrow> json option \<Rightarrow> state \<Rightarrow> response \<times> state" where
  "apiScanRoute cfg w b s =
     (let img = imageField b
      in if \<not> jsTruthy img \<or> \<not> isString img then (detailResponse 400 msgMissingImage, s)
         else case handleScan cfg w (stringOf img) s of
                (Inr result, s1) \<Rightarrow>
                  (\<lparr>status = 200, headers = [], jsonBody = resultJson result\<rparr>, s1)
              | (Inl error, s1) \<Rightarrow> (detailResponse 500 (errorDetail error), s1))"

section \<open>Observations on traces\<close>

fun isPut :: "event \<Rightarrow> bool" where
  "isPut (PutObject c b k d) = True"
| "isPut e = False"

fun isDiscovery :: "event \<Rightarrow> bool" where
  "isDiscovery (GetBucketLocation b) = True"
| "isDiscovery e = False"

definition putEvents :: "event list \<Rightarrow> event list" where
  "putEvents t = filter isPut t"

definition discoveryCalls :: "event list \<Rightarrow> nat" where
  "discoveryCalls t = length (filter isDiscovery t)"

text \<open>How many identifiers have been drawn for object keys.\<close>

definition idsDrawn :: "event list \<Rightarrow> nat" where
  "idsDrawn t = length (filter (\<lambda>e. e = RandomId) t)"

text \<open>
  The first four statements of \<open>persistScanResult\<close>: the key, the body, the region the
  resolver answers, the region of the client in use, and the state in which the first put
  is sent.
\<close>

definition prepareWrite ::
  "config \<Rightarrow> world \<Rightarrow> string \<Rightarrow> state \<Rightarrow> string \<times> buffer \<times> string \<times> string \<times> state" where
  "prepareWrite cfg w base64Image s =
     (let (objectKey, s0) = generateObjectKey cfg w s;
          (region, s1) = ensureRegion cfg w s0;
          (client, s2) = getS3Client cfg w s1
      in (objectKey, base64ToBuffer w base64Image, region, client, s2))"

section \<open>Scenarios\<close>

definition redirectError :: thrown where
  "redirectError =
     \<lparr>instanceOfError = True,
      message = Some ''The bucket must be addressed using the specified endpoint.'',
      name = Some ''PermanentRedirect'', httpStatusCode = Some 301\<rparr>"

definition accessDenied :: thrown where
  "accessDenied =
     \<lparr>instanceOfError = True, message = Some ''Access Denied'',
      name = Some ''AccessDenied'', httpStatusCode = Some 403\<rparr>"

definition networkDown :: thrown where
  "networkDown =
     \<lparr>instanceOfError = True, message = Some ''getaddrinfo ENOTFOUND'',
      name = Some ''Error'', httpStatusCode = None\<rparr>"

definition discoverConfig :: config where
  "discoverConfig = \<lparr>bucket = ''faces'', folder = ''/person_image/'', preferredRegion = []\<rparr>"

definition fixedConfig :: config where
  "fixedConfig = \<lparr>bucket = ''faces'', folder = ''/person_image/'', preferredRegion = ''us-west-2''\<rparr>"

text \<open>A bucket in \<open>eu-west-1\<close>: a put through a client of another region is redirected.\<close>

definition euWorld :: world where
  "euWorld =
     \<lparr>getBucketLocation = (\<lambda>h b. Inr (Some ''EU'')),
      putObject = (\<lambda>h region b k d. if region = ''eu-west-1'' then Inr () else Inl redirectError),
      generateContent = (\<lambda>h d. Inr (Some ''{}'')),
      hasRandomUUID = True,
      randomUUID = (\<lambda>h. ''7f9c'' @ replicate (length h) CHR ''a''),
      mathRandomBase36 = (\<lambda>h. ''0.4fzyo82m''),
      toISOString = (\<lambda>h. ''2024-05-06T07:08:09.123Z''),
      bufferFromBase64 = (\<lambda>s. s),
      jsonParse = (\<lambda>s. Inr (JObj []))\<rparr>"

text \<open>The same bucket when the first lookup of its location fails.\<close>

definition flakyWorld :: world where
  "flakyWorld =
     euWorld\<lparr>getBucketLocation :=
       (\<lambda>h b. if discoveryCalls h = 0 then Inl networkDown else Inr (Some ''EU''))\<rparr>"

text \<open>The same bucket when no lookup of its location ever succeeds.\<close>

definition blindWorld :: world where
  "blindWorld = euWorld\<lparr>getBucketLocation := (\<lambda>h b. Inl networkDown)\<rparr>"

text \<open>A bucket in \<open>us-east-1\<close> that refuses every put, and a model that is down.\<close>

definition deniedWorld :: world where
  "deniedWorld =
     euWorld\<lparr>getBucketLocation := (\<lambda>h b. Inr None),
             putObject := (\<lambda>h region b k d. Inl accessDenied),
             generateContent := (\<lambda>h d. if d = ''b2s='' then Inr (Some ''{}'') else Inl networkDown)\<rparr>"

text \<open>A bucket that redirects every put.\<close>

definition lostWorld :: world where
  "lostWorld = euWorld\<lparr>putObject := (\<lambda>h region b k d. Inl redirectError)\<rparr>"

section \<open>Region normalization\<close>

text \<open>
  C8. \<open>normalizeRegion\<close> maps \<open>null\<close>/\<open>undefined\<close> and the empty string to
  \<open>us-east-1\<close>, maps the legacy alias \<open>EU\<close> to \<open>eu-west-1\<close>, and returns every
  other non-empty string unchanged.
\<close>

theorem normalizeRegion_cases:
  "normalizeRegion None = ''us-east-1''
   \<and> normalizeRegion (Some []) = ''us-east-1''
   \<and> normalizeRegion (Some ''EU'') = ''eu-west-1''
   \<and> (\<forall>s. s \<noteq> [] \<and> s \<noteq> ''EU'' \<longrightarrow> normalizeRegion (Some s) = s)"
  by (simp add: normalizeRegion_def)

theorem normalizeRegion_cases_witness:
  "''ap-southeast-1'' \<noteq> [] \<and> ''ap-southeast-1'' \<noteq> ''EU''
   \<and> normalizeRegion (Some ''ap-southeast-1'') = ''ap-southeast-1''
   \<and> normalizeRegion (Some ''EU'') = ''eu-west-1''
   \<and> normalizeRegion None = ''us-east-1''"
  using normalizeRegion_cases by simp

section \<open>Unfolding the writer\<close>

lemmas scenario_defs =
  redirectError_def accessDenied_def networkDown_def discoverConfig_def fixedConfig_def
  euWorld_def flakyWorld_def blindWorld_def deniedWorld_def lostWorld_def initialState_def

lemmas writer_defs =
  persistScanResult_def prepareWrite_def generateObjectKey_def ensureRegion_def
  getS3Client_def logPut_def base64ToBuffer_def stripDataUrl_def sanitizeFolder_def
  normalizeRegion_def orElse_def truthy_def isRegionMismatch_def
  putEvents_def discoveryCalls_def idsDrawn_def Let_def

lemma normalizeRegion_nonempty: "normalizeRegion v \<noteq> []"
  by (simp add: normalizeRegion_def split: option.splits)

lemma orElse_normalizeRegion: "orElse (normalizeRegion v) ''us-east-1'' = normalizeRegion v"
  by (simp add: orElse_def normalizeRegion_nonempty)

text \<open>What \<open>persistScanResult\<close> does from its first put on.\<close>

lemma persistScanResult_unfold:
  assumes "prepareWrite cfg w img s = (objectKey, payload, region, client, s2)"
  shows "persistScanResult cfg w img s =
     (let s3 = logPut client cfg objectKey payload s2
      in case putObject w (trace s2) client (bucket cfg) objectKey payload of
           Inr u \<Rightarrow> (Inr (objectKey, region), s3)
         | Inl error \<Rightarrow>
             if isRegionMismatch error then
               (let s4 = s3\<lparr>s3Client := None, resolvedRegion := None\<rparr>;
                    s5 = s4\<lparr>trace := trace s4 @ [GetBucketLocation (bucket cfg)]\<rparr>
                in case getBucketLocation w (trace s4) (bucket cfg) of
                     Inl retryError \<Rightarrow> (Inl retryError, s5)
                   | Inr loc \<Rightarrow>
                       (let region2 = orElse (normalizeRegion loc) ''us-east-1'';
                            s6 = s5\<lparr>s3Client := Some region2\<rparr>;
                            s7 = logPut region2 cfg objectKey payload s6
                        in case putObject w (trace s6) region2 (bucket cfg) objectKey payload of
                             Inl retryError \<Rightarrow> (Inl retryError, s7)
                           | Inr u \<Rightarrow> (Inr (objectKey, region2), s7)))
             else (Inl error, s3))"
  using assms
  by (auto simp add: persistScanResult_def prepareWrite_def Let_def split: prod.splits)

lemma ensureRegion_puts: "putEvents (trace (snd (ensureRegion cfg w s))) = putEvents (trace s)"
  by (simp add: ensureRegion_def putEvents_def Let_def split: sum.splits)

lemma getS3Client_puts: "putEvents (trace (snd (getS3Client cfg w s))) = putEvents (trace s)"
  using ensureRegion_puts [of cfg w s]
  by (auto simp add: getS3Client_def split: option.splits prod.splits)

lemma generateObjectKey_puts:
  "putEvents (trace (snd (generateObjectKey cfg w s))) = putEvents (trace s)"
  by (simp add: generateObjectKey_def putEvents_def Let_def)

lemma prepareWrite_puts:
  assumes "prepareWrite cfg w img s = (objectKey, payload, region, client, s2)"
  shows "putEvents (trace s2) = putEvents (trace s)"
proof -
  obtain k s0 where g: "generateObjectKey cfg w s = (k, s0)"
    by (cases "generateObjectKey cfg w s")
  obtain r s1 where e: "ensureRegion cfg w s0 = (r, s1)"
    by (cases "ensureRegion cfg w s0")
  obtain c s2' where c: "getS3Client cfg w s1 = (c, s2')"
    by (cases "getS3Client cfg w s1")
  from assms g e c have "s2 = s2'" by (simp add: prepareWrite_def)
  moreover have "putEvents (trace s2') = putEvents (trace s1)"
    using getS3Client_puts [of cfg w s1] c by simp
  moreover have "putEvents (trace s1) = putEvents (trace s0)"
    using ensureRegion_puts [of cfg w s0] e by simp
  moreover have "putEvents (trace s0) = putEvents (trace s)"
    using generateObjectKey_puts [of cfg w s] g by simp
  ultimately show ?thesis by simp
qed

lemma prepareWrite_values:
  assumes "prepareWrite cfg w img s = (objectKey, payload, region, client, s2)"
  shows "objectKey = fst (generateObjectKey cfg w s)" and "payload = base64ToBuffer w img"
  using assms by (auto simp add: prepareWrite_def split: prod.splits)

lemma ensureRegion_ids: "idsDrawn (trace (snd (ensureRegion cfg w s))) = idsDrawn (trace s)"
  by (simp add: ensureRegion_def idsDrawn_def Let_def split: sum.splits)

lemma getS3Client_ids: "idsDrawn (trace (snd (getS3Client cfg w s))) = idsDrawn (trace s)"
  using ensureRegion_ids [of cfg w s]
  by (auto simp add: getS3Client_def split: option.splits prod.splits)

lemma generateObjectKey_ids:
  "idsDrawn (trace (snd (generateObjectKey cfg w s))) = idsDrawn (trace s) + 1"
  by (simp add: generateObjectKey_def idsDrawn_def Let_def)

lemma prepareWrite_ids:
  assumes "prepareWrite cfg w img s = (objectKey, payload, region, client, s2)"
  shows "idsDrawn (trace s2) = idsDrawn (trace s) + 1"
proof -
  obtain k s0 where g: "generateObjectKey cfg w s = (k, s0)"
    by (cases "generateObjectKey cfg w s")
  obtain r s1 where e: "ensureRegion cfg w s0 = (r, s1)"
    by (cases "ensureRegion cfg w s0")
  obtain c s2' where c: "getS3Client cfg w s1 = (c, s2')"
    by (cases "getS3Client cfg w s1")
  from assms g e c have "s2 = s2'" by (simp add: prepareWrite_def)
  moreover have "idsDrawn (trace s2') = idsDrawn (trace s1)"
    using getS3Client_ids [of cfg w s1] c by simp
  moreover have "idsDrawn (trace s1) = idsDrawn (trace s0)"
    using ensureRegion_ids [of cfg w s0] e by simp
  moreover have "idsDrawn (trace s0) = idsDrawn (trace s) + 1"
    using generateObjectKey_ids [of cfg w s] g by simp
  ultimately show ?thesis by simp
qed


text \<open>The analysis call changes nothing but the trace.\<close>

lemma analyzeImage_state:
  "snd (analyzeImage w img s) = s\<lparr>trace := trace s @ [GenerateContent (stripImageDataUrl img)]\<rparr>"
  by (simp add: analyzeImage_def Let_def split: sum.splits)


section \<open>Failures of the first put that are no region mismatch\<close>

text \<open>
  C5. When the first put of a write fails with an error that does not have the
  region-mismatch signature, \<open>persistScanResult\<close> fails with exactly that error; the only
  event after the state in which the put was sent is that one put, so there is no retry
  and no further discovery call.
\<close>

theorem persistScanResult_other_error:
  assumes "prepareWrite cfg w img s = (objectKey, payload, region, client, s2)"
    and "putObject w (trace s2) client (bucket cfg) objectKey payload = Inl error"
    and "\<not> isRegionMismatch error"
  shows "persistScanResult cfg w img s =
           (Inl error, s2\<lparr>trace := trace s2 @ [PutObject client (bucket cfg) objectKey payload]\<rparr>)
         \<and> putEvents (trace (snd (persistScanResult cfg w img s))) =
             putEvents (trace s) @ [PutObject client (bucket cfg) objectKey payload]
         \<and> discoveryCalls (trace (snd (persistScanResult cfg w img s))) = discoveryCalls (trace s2)"
  using assms prepareWrite_puts [OF assms(1)]
  by (simp add: persistScanResult_unfold [OF assms(1)] logPut_def putEvents_def discoveryCalls_def)

theorem persistScanResult_other_error_witness:
  "prepareWrite discoverConfig deniedWorld ''aGk='' initialState =
     (''person_image/2024-05-06T07-08-09-123Z-7f9c.jpg'', ''aGk='', ''us-east-1'', ''us-east-1'',
      \<lparr>resolvedRegion = Some ''us-east-1'', s3Client = Some ''us-east-1'',
       trace = [RandomId, NewDate, GetBucketLocation ''faces'']\<rparr>)
   \<and> \<not> isRegionMismatch accessDenied
   \<and> persistScanResult discoverConfig deniedWorld ''aGk='' initialState =
     (Inl accessDenied,
      \<lparr>resolvedRegion = Some ''us-east-1'', s3Client = Some ''us-east-1'',
       trace = [RandomId, NewDate, GetBucketLocation ''faces'',
                PutObject ''us-east-1'' ''faces''
                  ''person_image/2024-05-06T07-08-09-123Z-7f9c.jpg'' ''aGk='']\<rparr>)"
proof -
  have p: "prepareWrite discoverConfig deniedWorld ''aGk='' initialState =
     (''person_image/2024-05-06T07-08-09-123Z-7f9c.jpg'', ''aGk='', ''us-east-1'', ''us-east-1'',
      \<lparr>resolvedRegion = Some ''us-east-1'', s3Client = Some ''us-east-1'',
       trace = [RandomId, NewDate, GetBucketLocation ''faces'']\<rparr>)"
    by (simp add: scenario_defs writer_defs)
  have m: "\<not> isRegionMismatch accessDenied"
    by (simp add: isRegionMismatch_def accessDenied_def)
  have q: "putObject deniedWorld [RandomId, NewDate, GetBucketLocation ''faces''] ''us-east-1''
             (bucket discoverConfig) ''person_image/2024-05-06T07-08-09-123Z-7f9c.jpg'' ''aGk=''
           = Inl accessDenied"
    by (simp add: scenario_defs)
  show ?thesis
    using persistScanResult_other_error [OF p _ m] q p m by (simp add: discoverConfig_def)
qed

section \<open>The retry after a region mismatch\<close>

text \<open>
  C6. When the first put fails with the region-mismatch signature and the retried put
  (sent once the bucket location has been looked up again) fails as well,
  \<open>persistScanResult\<close> fails with the error of the retry, and the write has sent exactly
  two puts: there is no third attempt.
\<close>

theorem persistScanResult_retry_fails:
  assumes "prepareWrite cfg w img s = (objectKey, payload, region, client, s2)"
    and "putObject w (trace s2) client (bucket cfg) objectKey payload = Inl error"
    and "isRegionMismatch error"
    and "getBucketLocation w (trace s2 @ [PutObject client (bucket cfg) objectKey payload])
           (bucket cfg) = Inr loc"
    and "putObject w
           (trace s2 @ [PutObject client (bucket cfg) objectKey payload,
                        GetBucketLocation (bucket cfg)])
           (normalizeRegion loc) (bucket cfg) objectKey payload = Inl retryError"
  shows "fst (persistScanResult cfg w img s) = Inl retryError
         \<and> trace (snd (persistScanResult cfg w img s)) =
             trace s2 @ [PutObject client (bucket cfg) objectKey payload,
                         GetBucketLocation (bucket cfg),
                         PutObject (normalizeRegion loc) (bucket cfg) objectKey payload]
         \<and> length (putEvents (trace (snd (persistScanResult cfg w img s)))) =
             length (putEvents (trace s)) + 2"
  using assms prepareWrite_puts [OF assms(1)]
  by (simp add: persistScanResult_unfold [OF assms(1)] logPut_def putEvents_def
        orElse_normalizeRegion Let_def)

theorem persistScanResult_retry_fails_witness:
  "prepareWrite discoverConfig lostWorld ''aGk='' initialState =
     (''person_image/2024-05-06T07-08-09-123Z-7f9c.jpg'', ''aGk='', ''eu-west-1'', ''eu-west-1'',
      \<lparr>resolvedRegion = Some ''eu-west-1'', s3Client = Some ''eu-west-1'',
       trace = [RandomId, NewDate, GetBucketLocation ''faces'']\<rparr>)
   \<and> isRegionMismatch redirectError
   \<and> fst (persistScanResult discoverConfig lostWorld ''aGk='' initialState) = Inl redirectError
   \<and> length (putEvents (trace (snd (persistScanResult discoverConfig lostWorld ''aGk='' initialState)))) = 2"
proof -
  have p: "prepareWrite discoverConfig lostWorld ''aGk='' initialState =
     (''person_image/2024-05-06T07-08-09-123Z-7f9c.jpg'', ''aGk='', ''eu-west-1'', ''eu-west-1'',
      \<lparr>resolvedRegion = Some ''eu-west-1'', s3Client = Some ''eu-west-1'',
       trace = [RandomId, NewDate, GetBucketLocation ''faces'']\<rparr>)"
    by (simp add: scenario_defs writer_defs)
  have m: "isRegionMismatch redirectError"
    by (simp add: isRegionMismatch_def redirectError_def)
  have q: "putObject lostWorld h c b k d = Inl redirectError" for h c b k d
    by (simp add: scenario_defs)
  have g: "getBucketLocation lostWorld h b = Inr (Some ''EU'')" for h b
    by (simp add: scenario_defs)
  show ?thesis
    using persistScanResult_retry_fails [OF p q m g q] p m
    by (simp add: putEvents_def initialState_def)
qed

text \<open>
  C7. In a write that enters the retry path and sends its retry, the two puts carry the
  same object key and the same payload: the key that \<open>generateObjectKey\<close> returned at
  the start of the call and the buffer decoded from the image. One identifier is drawn
  in the whole call, so the key is generated once.
\<close>

theorem persistScanResult_retry_same_request:
  assumes "prepareWrite cfg w img s = (objectKey, payload, region, client, s2)"
    and "putObject w (trace s2) client (bucket cfg) objectKey payload = Inl error"
    and "isRegionMismatch error"
    and "getBucketLocation w (trace s2 @ [PutObject client (bucket cfg) objectKey payload])
           (bucket cfg) = Inr loc"
  shows "putEvents (trace (snd (persistScanResult cfg w img s))) =
           putEvents (trace s) @ [PutObject client (bucket cfg) objectKey payload,
                                  PutObject (normalizeRegion loc) (bucket cfg) objectKey payload]
         \<and> objectKey = fst (generateObjectKey cfg w s)
         \<and> payload = base64ToBuffer w img
         \<and> idsDrawn (trace (snd (persistScanResult cfg w img s))) = idsDrawn (trace s) + 1"
  using assms prepareWrite_puts [OF assms(1)] prepareWrite_ids [OF assms(1)]
    prepareWrite_values [OF assms(1)]
  by (simp add: persistScanResult_unfold [OF assms(1)] logPut_def putEvents_def idsDrawn_def
        orElse_normalizeRegion Let_def split: sum.splits)

theorem persistScanResult_retry_same_request_witness:
  "prepareWrite fixedConfig euWorld ''data:image/png;base64,aGk='' initialState =
     (''person_image/2024-05-06T07-08-09-123Z-7f9c.jpg'', ''aGk='', ''us-west-2'', ''us-west-2'',
      \<lparr>resolvedRegion = Some ''us-west-2'', s3Client = Some ''us-west-2'',
       trace = [RandomId, NewDate]\<rparr>)
   \<and> isRegionMismatch redirectError
   \<and> putEvents (trace (snd (persistScanResult fixedConfig euWorld ''data:image/png;base64,aGk='' initialState))) =
       [PutObject ''us-west-2'' ''faces'' ''person_image/2024-05-06T07-08-09-123Z-7f9c.jpg'' ''aGk='',
        PutObject ''eu-west-1'' ''faces'' ''person_image/2024-05-06T07-08-09-123Z-7f9c.jpg'' ''aGk='']
   \<and> idsDrawn (trace (snd (persistScanResult fixedConfig euWorld ''data:image/png;base64,aGk='' initialState))) = 1"
proof -
  have p: "prepareWrite fixedConfig euWorld ''data:image/png;base64,aGk='' initialState =
     (''person_image/2024-05-06T07-08-09-123Z-7f9c.jpg'', ''aGk='', ''us-west-2'', ''us-west-2'',
      \<lparr>resolvedRegion = Some ''us-west-2'', s3Client = Some ''us-west-2'',
       trace = [RandomId, NewDate]\<rparr>)"
    by (simp add: scenario_defs writer_defs isWordChar_def)
  have m: "isRegionMismatch redirectError"
    by (simp add: isRegionMismatch_def redirectError_def)
  have q: "putObject euWorld h ''us-west-2'' b k d = Inl redirectError" for h b k d
    by (simp add: scenario_defs)
  have g: "getBucketLocation euWorld h b = Inr (Some ''EU'')" for h b
    by (simp add: scenario_defs)
  have n: "normalizeRegion (Some ''EU'') = ''eu-west-1''"
    by (simp add: normalizeRegion_def)
  show ?thesis
    using persistScanResult_retry_same_request [OF p q m g] p m n
    by (simp add: putEvents_def idsDrawn_def initialState_def fixedConfig_def)
qed

section \<open>The cache after a successful retry\<close>

text \<open>
  C1. A write whose first put is redirected and whose retry succeeds returns the key
  and the rediscovered region, here \<open>eu-west-1\<close>. The retry path clears
  \<open>resolvedRegion\<close> and never assigns it again, so the cache is empty afterwards while
  the client is bound to \<open>eu-west-1\<close>, and the next write looks the location up once
  more: three discovery calls after two writes.
\<close>

theorem retry_success_forgets_region:
  "persistScanResult discoverConfig flakyWorld ''aGk='' initialState =
     (Inr (''person_image/2024-05-06T07-08-09-123Z-7f9c.jpg'', ''eu-west-1''),
      \<lparr>resolvedRegion = None, s3Client = Some ''eu-west-1'',
       trace = [RandomId, NewDate, GetBucketLocation ''faces'',
                PutObject ''us-east-1'' ''faces''
                  ''person_image/2024-05-06T07-08-09-123Z-7f9c.jpg'' ''aGk='',
                GetBucketLocation ''faces'',
                PutObject ''eu-west-1'' ''faces''
                  ''person_image/2024-05-06T07-08-09-123Z-7f9c.jpg'' ''aGk='']\<rparr>)
   \<and> discoveryCalls (trace (snd (persistScanResult discoverConfig flakyWorld ''aGk=''
         (snd (persistScanResult discoverConfig flakyWorld ''aGk='' initialState))))) = 3"
  by (simp add: scenario_defs writer_defs)

text \<open>
  C2. With a fixed region \<open>us-west-2\<close> configured for a bucket that lives in
  \<open>eu-west-1\<close>, two writes lead to a state in which the cache holds \<open>us-west-2\<close>
  and the live client is bound to \<open>eu-west-1\<close>; the second write reports
  \<open>us-west-2\<close> for an object it has put through the \<open>eu-west-1\<close> client.
\<close>

theorem stale_client_reachable:
  "reachable fixedConfig euWorld
     (snd (persistScanResult fixedConfig euWorld ''aGk=''
        (snd (persistScanResult fixedConfig euWorld ''aGk='' initialState))))
   \<and> resolvedRegion (snd (persistScanResult fixedConfig euWorld ''aGk=''
        (snd (persistScanResult fixedConfig euWorld ''aGk='' initialState)))) = Some ''us-west-2''
   \<and> s3Client (snd (persistScanResult fixedConfig euWorld ''aGk=''
        (snd (persistScanResult fixedConfig euWorld ''aGk='' initialState)))) = Some ''eu-west-1''
   \<and> fst (persistScanResult fixedConfig euWorld ''aGk=''
        (snd (persistScanResult fixedConfig euWorld ''aGk='' initialState))) =
       Inr (''person_image/2024-05-06T07-08-09-123Z-7f9caaaaa.jpg'', ''us-west-2'')"
proof -
  have "reachable fixedConfig euWorld
     (snd (persistScanResult fixedConfig euWorld ''aGk=''
        (snd (persistScanResult fixedConfig euWorld ''aGk='' initialState))))"
    by (intro after_write at_start)
  then show ?thesis
    by (simp add: scenario_defs writer_defs)
qed

section \<open>Failures of the discovery call\<close>

text \<open>
  The lookup of \<open>ensureRegion\<close> recovers from its own failure: \<open>us-east-1\<close> is
  returned and cached, and nothing is raised.
\<close>

lemma ensureRegion_discovery_fallback:
  assumes "\<not> truthy (resolvedRegion s)" and "preferredRegion cfg = []"
    and "getBucketLocation w (trace s) (bucket cfg) = Inl err"
  shows "ensureRegion cfg w s =
           (''us-east-1'',
            s\<lparr>trace := trace s @ [GetBucketLocation (bucket cfg)],
              resolvedRegion := Some ''us-east-1''\<rparr>)"
  using assms by (simp add: ensureRegion_def)

text \<open>
  C3. Every failure of the bucket-location lookup should be recovered by falling back to
  \<open>us-east-1\<close> and caching it, and should never reach the caller. \<open>ensureRegion\<close>
  does so, but the copy of the lookup in the retry path of \<open>persistScanResult\<close> has no
  fallback. When no lookup ever succeeds, the first put (sent to the fallback region) is
  redirected, the lookup of the retry path fails, and \<open>persistScanResult\<close> fails with
  the error of that lookup; so does \<open>handleScan\<close>. No second put is sent and nothing
  is cached.
\<close>

theorem rediscovery_failure_propagates:
  "ensureRegion discoverConfig blindWorld initialState =
     (''us-east-1'',
      \<lparr>resolvedRegion = Some ''us-east-1'', s3Client = None,
       trace = [GetBucketLocation ''faces'']\<rparr>)
   \<and> persistScanResult discoverConfig blindWorld ''aGk='' initialState =
     (Inl networkDown,
      \<lparr>resolvedRegion = None, s3Client = None,
       trace = [RandomId, NewDate, GetBucketLocation ''faces'',
                PutObject ''us-east-1'' ''faces''
                  ''person_image/2024-05-06T07-08-09-123Z-7f9c.jpg'' ''aGk='',
                GetBucketLocation ''faces'']\<rparr>)
   \<and> getBucketLocation blindWorld
         [RandomId, NewDate, GetBucketLocation ''faces'',
          PutObject ''us-east-1'' ''faces''
            ''person_image/2024-05-06T07-08-09-123Z-7f9c.jpg'' ''aGk=''] ''faces'' = Inl networkDown
   \<and> handleScan discoverConfig blindWorld ''aGk='' initialState =
     (Inl networkDown,
      \<lparr>resolvedRegion = None, s3Client = None,
       trace = [GenerateContent ''aGk='', RandomId, NewDate, GetBucketLocation ''faces'',
                PutObject ''us-east-1'' ''faces''
                  ''person_image/2024-05-06T07-08-09-123Z-7f9ca.jpg'' ''aGk='',
                GetBucketLocation ''faces'']\<rparr>)"
  by (simp add: scenario_defs writer_defs handleScan_def analyzeImage_def
        stripImageDataUrl_def fence_def)

section \<open>A fixed region\<close>








section \<open>The entry points\<close>

lemma no_string_rejected:
  assumes "\<forall>str. v \<noteq> Some (JStr str)"
  shows "\<not> jsTruthy v \<or> \<not> isString v"
  using assms by (auto simp add: isString_def split: option.splits json.splits)

lemma string_accepted:
  assumes "v = Some (JStr img)" and "img \<noteq> []"
  shows "jsTruthy v" and "isString v" and "stringOf v = img"
  using assms by (simp_all add: jsTruthy_def isString_def stringOf_def)

text \<open>
  C9, amended. \<open>handler\<close> answers every request whose method is not POST with status
  405, whatever its body. A POST request whose body has no \<open>image\<close> or an \<open>image\<close>
  that is not a string is answered with status 400 and the state is unchanged: neither the
  analysis call nor the writer has run. When \<open>handleScan\<close> fails, the answer has
  status 500 and a body with the string \<open>detail\<close>. The callback of the Express route,
  which Express calls for POST requests only, answers 400 and 500 in the same cases and
  never answers 405.
\<close>

theorem handler_statuses:
  "(method req \<noteq> Some ''POST''
      \<longrightarrow> status (fst (handler cfg w req s)) = 405 \<and> snd (handler cfg w req s) = s)
   \<and> (method req = Some ''POST'' \<and> (\<forall>str. imageField (body req) \<noteq> Some (JStr str))
      \<longrightarrow> status (fst (handler cfg w req s)) = 400 \<and> snd (handler cfg w req s) = s)
   \<and> ((\<forall>str. imageField b \<noteq> Some (JStr str))
      \<longrightarrow> status (fst (apiScanRoute cfg w b s)) = 400 \<and> snd (apiScanRoute cfg w b s) = s)
   \<and> (method req = Some ''POST'' \<and> imageField (body req) = Some (JStr img) \<and> img \<noteq> []
        \<and> handleScan cfg w img s = (Inl error, s1)
      \<longrightarrow> status (fst (handler cfg w req s)) = 500
          \<and> jsonBody (fst (handler cfg w req s)) = JObj [(''detail'', JStr (errorDetail error))])
   \<and> (imageField b = Some (JStr img) \<and> img \<noteq> [] \<and> handleScan cfg w img s = (Inl error, s1)
      \<longrightarrow> status (fst (apiScanRoute cfg w b s)) = 500
          \<and> jsonBody (fst (apiScanRoute cfg w b s)) = JObj [(''detail'', JStr (errorDetail error))])
   \<and> status (fst (apiScanRoute cfg w b s)) \<noteq> 405"
proof (intro conjI impI)
  assume "method req \<noteq> Some ''POST''"
  then show "status (fst (handler cfg w req s)) = 405" and "snd (handler cfg w req s) = s"
    by (simp_all add: handler_def methodNotAllowed_def)
next
  assume a: "method req = Some ''POST'' \<and> (\<forall>str. imageField (body req) \<noteq> Some (JStr str))"
  then have "\<not> jsTruthy (imageField (body req)) \<or> \<not> isString (imageField (body req))"
    using no_string_rejected by blast
  with a show "status (fst (handler cfg w req s)) = 400" and "snd (handler cfg w req s) = s"
    by (auto simp add: handler_def detailResponse_def Let_def)
next
  assume "\<forall>str. imageField b \<noteq> Some (JStr str)"
  then have "\<not> jsTruthy (imageField b) \<or> \<not> isString (imageField b)"
    using no_string_rejected by blast
  then show "status (fst (apiScanRoute cfg w b s)) = 400" and "snd (apiScanRoute cfg w b s) = s"
    by (auto simp add: apiScanRoute_def detailResponse_def Let_def)
next
  assume a: "method req = Some ''POST'' \<and> imageField (body req) = Some (JStr img) \<and> img \<noteq> []
        \<and> handleScan cfg w img s = (Inl error, s1)"
  then have "jsTruthy (imageField (body req))" "isString (imageField (body req))"
    "stringOf (imageField (body req)) = img"
    using string_accepted by blast+
  with a show "status (fst (handler cfg w req s)) = 500"
    and "jsonBody (fst (handler cfg w req s)) = JObj [(''detail'', JStr (errorDetail error))]"
    by (simp_all add: handler_def detailResponse_def Let_def)
next
  assume a: "imageField b = Some (JStr img) \<and> img \<noteq> [] \<and> handleScan cfg w img s = (Inl error, s1)"
  then have "jsTruthy (imageField b)" "isString (imageField b)" "stringOf (imageField b) = img"
    using string_accepted by blast+
  with a show "status (fst (apiScanRoute cfg w b s)) = 500"
    and "jsonBody (fst (apiScanRoute cfg w b s)) = JObj [(''detail'', JStr (errorDetail error))]"
    by (simp_all add: apiScanRoute_def detailResponse_def Let_def)
next
  show "status (fst (apiScanRoute cfg w b s)) \<noteq> 405"
    by (simp add: apiScanRoute_def detailResponse_def Let_def split: prod.splits sum.splits)
qed

lemma deniedWorld_analysis_down:
  "handleScan discoverConfig deniedWorld ''aGk='' initialState =
     (Inl networkDown, \<lparr>resolvedRegion = None, s3Client = None, trace = [GenerateContent ''aGk='']\<rparr>)"
  by (simp add: handleScan_def analyzeImage_def stripImageDataUrl_def scenario_defs Let_def)

theorem handler_statuses_witness:
  "method \<lparr>method = Some ''GET'', body = None\<rparr> \<noteq> Some ''POST''
   \<and> status (fst (handler discoverConfig deniedWorld \<lparr>method = Some ''GET'', body = None\<rparr> initialState)) = 405
   \<and> (\<forall>str. imageField (Some (JObj [(''image'', JNum 123)])) \<noteq> Some (JStr str))
   \<and> status (fst (handler discoverConfig deniedWorld
         \<lparr>method = Some ''POST'', body = Some (JObj [(''image'', JNum 123)])\<rparr> initialState)) = 400
   \<and> snd (handler discoverConfig deniedWorld
         \<lparr>method = Some ''POST'', body = Some (JObj [(''image'', JNum 123)])\<rparr> initialState) = initialState
   \<and> status (fst (apiScanRoute discoverConfig deniedWorld (Some (JObj [(''image'', JNum 123)]))
         initialState)) = 400
   \<and> imageField (Some (JObj [(''image'', JStr ''aGk='')])) = Some (JStr ''aGk='')
   \<and> fst (handleScan discoverConfig deniedWorld ''aGk='' initialState) = Inl networkDown
   \<and> fst (handler discoverConfig deniedWorld
         \<lparr>method = Some ''POST'', body = Some (JObj [(''image'', JStr ''aGk='')])\<rparr> initialState) =
       \<lparr>status = 500, headers = [], jsonBody = JObj [(''detail'', JStr ''getaddrinfo ENOTFOUND'')]\<rparr>
   \<and> status (fst (apiScanRoute discoverConfig deniedWorld (Some (JObj [(''image'', JStr ''aGk='')]))
         initialState)) = 500"
proof -
  let ?get = "\<lparr>method = Some ''GET'', body = None\<rparr>"
  let ?bad = "\<lparr>method = Some ''POST'', body = Some (JObj [(''image'', JNum 123)])\<rparr>"
  let ?ok = "\<lparr>method = Some ''POST'', body = Some (JObj [(''image'', JStr ''aGk='')])\<rparr>"
  have g: "method ?get \<noteq> Some ''POST''" by simp
  have b: "\<forall>str. imageField (Some (JObj [(''image'', JNum 123)])) \<noteq> Some (JStr str)"
    by (simp add: imageField_def)
  have i: "imageField (Some (JObj [(''image'', JStr ''aGk='')])) = Some (JStr ''aGk='')"
    by (simp add: imageField_def)
  note h = deniedWorld_analysis_down
  have d: "errorDetail networkDown = ''getaddrinfo ENOTFOUND''"
    by (simp add: errorDetail_def networkDown_def)
  note t1 = handler_statuses [of ?get discoverConfig deniedWorld initialState None "[]"]
  note t2 = handler_statuses [of ?bad discoverConfig deniedWorld initialState
      "Some (JObj [(''image'', JNum 123)])" "[]"]
  note t3 = handler_statuses [of ?ok discoverConfig deniedWorld initialState
      "Some (JObj [(''image'', JStr ''aGk='')])" "''aGk=''" networkDown
      "\<lparr>resolvedRegion = None, s3Client = None, trace = [GenerateContent ''aGk='']\<rparr>"]
  have c1: "status (fst (handler discoverConfig deniedWorld ?get initialState)) = 405"
    using t1 g by blast
  have c2: "status (fst (handler discoverConfig deniedWorld ?bad initialState)) = 400
      \<and> snd (handler discoverConfig deniedWorld ?bad initialState) = initialState
      \<and> status (fst (apiScanRoute discoverConfig deniedWorld (Some (JObj [(''image'', JNum 123)]))
         initialState)) = 400"
    using t2 b by simp
  have c3: "status (fst (handler discoverConfig deniedWorld ?ok initialState)) = 500
      \<and> jsonBody (fst (handler discoverConfig deniedWorld ?ok initialState)) =
          JObj [(''detail'', JStr ''getaddrinfo ENOTFOUND'')]
      \<and> status (fst (apiScanRoute discoverConfig deniedWorld (Some (JObj [(''image'', JStr ''aGk='')]))
         initialState)) = 500"
    using t3 i h d by simp
  have hd: "headers (fst (handler discoverConfig deniedWorld ?ok initialState)) = []"
    using i h by (simp add: handler_def jsTruthy_def isString_def stringOf_def detailResponse_def)
  have "fst (handler discoverConfig deniedWorld ?ok initialState) =
       \<lparr>status = 500, headers = [], jsonBody = JObj [(''detail'', JStr ''getaddrinfo ENOTFOUND'')]\<rparr>"
    using c3 hd by (cases "fst (handler discoverConfig deniedWorld ?ok initialState)") simp
  then show ?thesis using g c1 b c2 i h c3 by simp
qed

text \<open>
  C9, as stated, fails: a GET request whose \<open>image\<close> is a number is answered by
  \<open>handler\<close> with status 405, not 400, because the method is checked before the body
  is read.
\<close>

theorem handler_get_without_image:
  "imageField (body \<lparr>method = Some ''GET'', body = Some (JObj [(''image'', JNum 123)])\<rparr>)
     = Some (JNum 123)
   \<and> status (fst (handler discoverConfig deniedWorld
         \<lparr>method = Some ''GET'', body = Some (JObj [(''image'', JNum 123)])\<rparr> initialState)) = 405
   \<and> status (fst (handler discoverConfig deniedWorld
         \<lparr>method = Some ''GET'', body = Some (JObj [(''image'', JNum 123)])\<rparr> initialState)) \<noteq> 400"
  by (simp add: handler_def methodNotAllowed_def imageField_def)

section \<open>Analysis before storage\<close>

text \<open>
  C10. \<open>handleScan\<close> runs the analysis first. When \<open>analyzeImage\<close> throws,
  \<open>handleScan\<close> fails with that error in the state the analysis left, which differs from
  the state before only by the recorded analysis call: the writer has not run and no put
  was sent. When the analysis succeeds, the writer runs from the state the analysis left.
\<close>

theorem handleScan_analysis_first:
  "(analyzeImage w img s = (Inl err, s1)
      \<longrightarrow> handleScan cfg w img s = (Inl err, s1)
          \<and> s1 = s\<lparr>trace := trace s @ [GenerateContent (stripImageDataUrl img)]\<rparr>
          \<and> putEvents (trace (snd (handleScan cfg w img s))) = putEvents (trace s))
   \<and> (analyzeImage w img s = (Inr a, s1)
      \<longrightarrow> snd (handleScan cfg w img s) = snd (persistScanResult cfg w img s1)
          \<and> s1 = s\<lparr>trace := trace s @ [GenerateContent (stripImageDataUrl img)]\<rparr>)"
proof (intro conjI impI)
  assume a: "analyzeImage w img s = (Inl err, s1)"
  then show "handleScan cfg w img s = (Inl err, s1)"
    by (simp add: handleScan_def)
  from a show s1: "s1 = s\<lparr>trace := trace s @ [GenerateContent (stripImageDataUrl img)]\<rparr>"
    using analyzeImage_state [of w img s] by simp
  from a s1 show "putEvents (trace (snd (handleScan cfg w img s))) = putEvents (trace s)"
    by (simp add: handleScan_def putEvents_def)
next
  assume a: "analyzeImage w img s = (Inr a, s1)"
  then show "snd (handleScan cfg w img s) = snd (persistScanResult cfg w img s1)"
    by (simp add: handleScan_def Let_def split: prod.splits sum.splits)
  from a show "s1 = s\<lparr>trace := trace s @ [GenerateContent (stripImageDataUrl img)]\<rparr>"
    using analyzeImage_state [of w img s] by simp
qed

theorem handleScan_analysis_first_witness:
  "analyzeImage deniedWorld ''aGk='' initialState =
     (Inl networkDown, \<lparr>resolvedRegion = None, s3Client = None, trace = [GenerateContent ''aGk='']\<rparr>)
   \<and> handleScan discoverConfig deniedWorld ''aGk='' initialState =
     (Inl networkDown, \<lparr>resolvedRegion = None, s3Client = None, trace = [GenerateContent ''aGk='']\<rparr>)
   \<and> analyzeImage deniedWorld ''b2s='' initialState =
     (Inr (JObj []), \<lparr>resolvedRegion = None, s3Client = None, trace = [GenerateContent ''b2s='']\<rparr>)
   \<and> snd (handleScan discoverConfig deniedWorld ''b2s='' initialState) =
      snd (persistScanResult discoverConfig deniedWorld ''b2s=''
            \<lparr>resolvedRegion = None, s3Client = None, trace = [GenerateContent ''b2s='']\<rparr>)"
proof -
  have f: "analyzeImage deniedWorld ''aGk='' initialState =
     (Inl networkDown, \<lparr>resolvedRegion = None, s3Client = None, trace = [GenerateContent ''aGk='']\<rparr>)"
    by (simp add: analyzeImage_def stripImageDataUrl_def scenario_defs Let_def)
  have g: "analyzeImage deniedWorld ''b2s='' initialState =
     (Inr (JObj []), \<lparr>resolvedRegion = None, s3Client = None, trace = [GenerateContent ''b2s='']\<rparr>)"
    by (simp add: analyzeImage_def stripImageDataUrl_def scenario_defs fence_def Let_def)
  show ?thesis
    using handleScan_analysis_first [of deniedWorld "''aGk=''" initialState networkDown
        "\<lparr>resolvedRegion = None, s3Client = None, trace = [GenerateContent ''aGk='']\<rparr>" discoverConfig]
      handleScan_analysis_first [of deniedWorld "''b2s=''" initialState _
        "\<lparr>resolvedRegion = None, s3Client = None, trace = [GenerateContent ''b2s='']\<rparr>" discoverConfig "JObj []"]
      f g
    by simp
qed

end
